theory Spec2Isabelle
  imports Complex_Main
begin

section \<open>OpenCL address spaces of triSYCL: types\<close>

text \<open>
  The header \<^verbatim>\<open>include/CL/implementation/sycl-address-spaces.hpp\<close> is a set of
  class templates. What it computes at compile time (a type from a type and an address
  space) is modelled by functions over a datatype of C++ types; what its constructors and
  conversion operators do at run time is modelled further down over an explicit store.
\<close>

subsection \<open>The address spaces\<close>

text \<open>
  Modelled from the spec: the enumeration \<^verbatim>\<open>address_space\<close> is declared outside this
  header, which only uses its five enumerators (lines 31, 41, 51, 61 and 71). The spec
  gives it as the closed set generic, global, local, private, constant.
\<close>

datatype address_space =
    constant_address_space
  | generic_address_space
  | global_address_space
  | local_address_space
  | private_address_space

text \<open>The OpenCL 2 qualifiers \<^verbatim>\<open>__constant\<close>, \<^verbatim>\<open>__generic\<close>, \<^verbatim>\<open>__global\<close>,
  \<^verbatim>\<open>__local\<close> and \<^verbatim>\<open>__private\<close> that the header writes in front of a type.\<close>

datatype qualifier =
    constant_qualifier
  | generic_qualifier
  | global_qualifier
  | local_qualifier
  | private_qualifier

subsection \<open>C++ types\<close>

text \<open>
  The shapes of type the header tells apart with \<^verbatim>\<open>std::is_pointer\<close>,
  \<^verbatim>\<open>std::is_class\<close> and \<^verbatim>\<open>std::is_array\<close>, and the address-space qualified types
  that \<^verbatim>\<open>OpenCLType\<close> produces. \<open>Array U n\<close> is \<^verbatim>\<open>U[n]\<close>, \<open>Pointer U\<close> is
  \<^verbatim>\<open>U *\<close>.
\<close>

datatype ctype =
    Fundamental string
  | Enum string
  | Union string
  | Class string
  | Pointer ctype
  | Array ctype nat
  | Qualified qualifier ctype

text \<open>The three standard type traits. A qualifier, like \<^verbatim>\<open>const\<close>, does not change
  the answer.\<close>

fun is_pointer :: "ctype \<Rightarrow> bool" where
  "is_pointer (Pointer U) = True"
| "is_pointer (Qualified q U) = is_pointer U"
| "is_pointer _ = False"

fun is_class :: "ctype \<Rightarrow> bool" where
  "is_class (Class c) = True"
| "is_class (Qualified q U) = is_class U"
| "is_class _ = False"

fun is_array :: "ctype \<Rightarrow> bool" where
  "is_array (Array U n) = True"
| "is_array (Qualified q U) = is_array U"
| "is_array _ = False"

subsection \<open>\<^verbatim>\<open>OpenCLType\<close> (lines 24 to 77)\<close>

text \<open>
  \<^verbatim>\<open>
  template <typename T>
  struct OpenCLType<T, constant_address_space> {
    using type =
  #ifdef __SYCL_DEVICE_ONLY__
      __constant
  #endif
      T;
  };
  \<close>
  and the same for the four other address spaces. The preprocessor symbol is the first
  argument of the model. The primary template (\<^verbatim>\<open>using type = T\<close>) is for an address
  space outside the five enumerators; the five specialisations cover the enumeration.
\<close>

fun OpenCLType :: "bool \<Rightarrow> ctype \<Rightarrow> address_space \<Rightarrow> ctype" where
  "OpenCLType SYCL_DEVICE_ONLY T constant_address_space =
     (if SYCL_DEVICE_ONLY then Qualified constant_qualifier T else T)"
| "OpenCLType SYCL_DEVICE_ONLY T generic_address_space =
     (if SYCL_DEVICE_ONLY then Qualified generic_qualifier T else T)"
| "OpenCLType SYCL_DEVICE_ONLY T global_address_space =
     (if SYCL_DEVICE_ONLY then Qualified global_qualifier T else T)"
| "OpenCLType SYCL_DEVICE_ONLY T local_address_space =
     (if SYCL_DEVICE_ONLY then Qualified local_qualifier T else T)"
| "OpenCLType SYCL_DEVICE_ONLY T private_address_space =
     (if SYCL_DEVICE_ONLY then Qualified private_qualifier T else T)"

subsection \<open>\<^verbatim>\<open>AddressSpaceImpl\<close> (lines 101 to 110)\<close>

text \<open>The four class templates the dispatch chooses from, each with its two template
  arguments.\<close>

datatype implementation =
    AddressSpacePointerImpl ctype address_space
  | AddressSpaceObjectImpl ctype address_space
  | AddressSpaceArrayImpl ctype address_space
  | AddressSpaceFundamentalImpl ctype address_space

text \<open>\<^verbatim>\<open>std::conditional<B, X, Y>::type\<close> is \<^verbatim>\<open>X\<close> when \<^verbatim>\<open>B\<close> is true and
  \<^verbatim>\<open>Y\<close> otherwise.\<close>

definition conditional :: "bool \<Rightarrow> 'a \<Rightarrow> 'a \<Rightarrow> 'a" where
  "conditional B X Y = (if B then X else Y)"

text \<open>
  \<^verbatim>\<open>
  template <typename T, address_space AS>
  using AddressSpaceImpl =
    typename std::conditional<std::is_pointer<T>::value,
                              AddressSpacePointerImpl<T, AS>,
    typename std::conditional<std::is_class<T>::value,
                              AddressSpaceObjectImpl<T, AS>,
    typename std::conditional<std::is_array<T>::value,
                              AddressSpaceArrayImpl<T, AS>,
                              AddressSpaceFundamentalImpl<T, AS>
    >::type>::type>::type;
  \<close>
\<close>

definition AddressSpaceImpl :: "ctype \<Rightarrow> address_space \<Rightarrow> implementation" where
  "AddressSpaceImpl T AS =
     conditional (is_pointer T)
       (AddressSpacePointerImpl T AS)
       (conditional (is_class T)
          (AddressSpaceObjectImpl T AS)
          (conditional (is_array T)
             (AddressSpaceArrayImpl T AS)
             (AddressSpaceFundamentalImpl T AS)))"

text \<open>The class template of an instantiation, without its arguments: the category of
  the wrapper.\<close>

datatype category = pointer_category | object_category | array_category | scalar_category

fun category_of :: "implementation \<Rightarrow> category" where
  "category_of (AddressSpacePointerImpl T AS) = pointer_category"
| "category_of (AddressSpaceObjectImpl T AS) = object_category"
| "category_of (AddressSpaceArrayImpl T AS) = array_category"
| "category_of (AddressSpaceFundamentalImpl T AS) = scalar_category"

subsection \<open>\<^verbatim>\<open>AddressSpaceBaseImpl\<close> (lines 122 to 140)\<close>

text \<open>
  \<^verbatim>\<open>
  using type = T;
  using opencl_type = typename OpenCLType<T, AS>::type;
  static auto constexpr address_space = AS;
  \<close>
  The three members every wrapper class has, as a record.
\<close>

record AddressSpaceBaseImpl =
  type :: ctype
  opencl_type :: ctype
  address_space :: address_space

definition AddressSpaceBaseImpl ::
    "bool \<Rightarrow> ctype \<Rightarrow> address_space \<Rightarrow> AddressSpaceBaseImpl" where
  "AddressSpaceBaseImpl SYCL_DEVICE_ONLY T AS =
     \<lparr> type = T,
       opencl_type = OpenCLType SYCL_DEVICE_ONLY T AS,
       address_space = AS \<rparr>"

text \<open>
  The declared type of what a wrapper holds. \<^verbatim>\<open>AddressSpaceVariableImpl\<close> and
  \<^verbatim>\<open>AddressSpaceArrayImpl\<close> each declare
  \<^verbatim>\<open>using opencl_type = typename OpenCLType<T, AS>::type;\<close> (lines 155 and 286) and the
  member \<^verbatim>\<open>opencl_type variable;\<close> (lines 167 and 294); the classes for fundamental
  and pointer types inherit that member from \<^verbatim>\<open>AddressSpaceVariableImpl<T, AS>\<close>
  (lines 202 and 260); \<^verbatim>\<open>AddressSpaceObjectImpl\<close> derives from
  \<^verbatim>\<open>OpenCLType<T, AS>::type\<close> (line 377). The conversion operator of every class is
  \<^verbatim>\<open>operator opencl_type & ()\<close> (lines 188, 358 and 402).
\<close>

fun storage_type :: "bool \<Rightarrow> implementation \<Rightarrow> ctype" where
  "storage_type dev (AddressSpaceFundamentalImpl T AS) = OpenCLType dev T AS"
| "storage_type dev (AddressSpacePointerImpl T AS) = OpenCLType dev T AS"
| "storage_type dev (AddressSpaceArrayImpl T AS) = OpenCLType dev T AS"
| "storage_type dev (AddressSpaceObjectImpl T AS) = OpenCLType dev T AS"

definition conversion_type :: "bool \<Rightarrow> implementation \<Rightarrow> ctype" where
  "conversion_type dev impl = storage_type dev impl"

section \<open>OpenCL address spaces of triSYCL: objects\<close>

subsection \<open>The store\<close>

text \<open>
  Objects live in a store of cells. A cell holds a value of the program, or is
  indeterminate, as a default-initialised \<^verbatim>\<open>int\<close> is. A wrapper of a fundamental
  type, of a pointer type or of a class type has one non-static data member or one base
  class object and nothing else (\<^verbatim>\<open>AddressSpaceBaseImpl\<close> has only type aliases and a
  static member), so such a wrapper at address \<open>this\<close> is the cell \<open>this\<close>; a wrapper of
  \<^verbatim>\<open>U[N]\<close> is the \<open>N\<close> cells from \<open>this\<close> on. The address space has no run-time
  representation: no function below has it as an argument.
\<close>

type_synonym addr = nat

datatype 'v cell = Indeterminate | Val 'v

type_synonym 'v store = "addr \<Rightarrow> 'v cell"

text \<open>
  What the compiler refuses is a result of the model like any other, kept apart from
  what goes wrong when the program runs.
\<close>

datatype diagnostic =
    static_assert_failed string
  | no_matching_constructor
  | cannot_bind_reference
  | no_viable_conversion
  | excess_initializers

datatype error = compile_error diagnostic | undefined_behavior

definition and_then :: "error + 'a \<Rightarrow> ('a \<Rightarrow> error + 'b) \<Rightarrow> error + 'b" where
  "and_then m f = (case m of Inl e \<Rightarrow> Inl e | Inr x \<Rightarrow> f x)"

text \<open>\<^verbatim>\<open>static_assert(c, msg)\<close> in a class: the class is instantiated only when
  \<open>c\<close> holds.\<close>

definition static_assert :: "bool \<Rightarrow> string \<Rightarrow> error + unit" where
  "static_assert c msg = (if c then Inr () else Inl (compile_error (static_assert_failed msg)))"

text \<open>
  Default-initialisation of \<open>n\<close> adjacent objects of one type, where \<open>dflt\<close> is the
  state in which that type's default-initialisation leaves an object: \<open>Indeterminate\<close>
  for a fundamental or pointer type, the value its default constructor builds for a class.
\<close>

definition default_initialize :: "'v cell \<Rightarrow> addr \<Rightarrow> nat \<Rightarrow> 'v store \<Rightarrow> 'v store" where
  "default_initialize dflt a n s = (\<lambda>b. if a \<le> b \<and> b < a + n then dflt else s b)"

text \<open>Reading the value of an object; reading an indeterminate value is undefined.\<close>

definition lvalue_to_rvalue :: "'v store \<Rightarrow> addr \<Rightarrow> error + 'v" where
  "lvalue_to_rvalue s a =
     (case s a of Val x \<Rightarrow> Inr x | Indeterminate \<Rightarrow> Inl undefined_behavior)"

text \<open>Assignment through a reference, the element \<open>i\<close> of the array a reference
  designates, and the cells of an array of \<open>n\<close> elements.\<close>

definition assign :: "addr \<Rightarrow> 'v \<Rightarrow> 'v store \<Rightarrow> 'v store" where
  "assign r x s = s(r := Val x)"

definition subscript :: "addr \<Rightarrow> nat \<Rightarrow> addr" where
  "subscript r i = r + i"

definition read_array :: "'v store \<Rightarrow> addr \<Rightarrow> nat \<Rightarrow> 'v cell list" where
  "read_array s a n = map s [a..<a + n]"

text \<open>
  The expression of a \<^verbatim>\<open>return\<close> statement is an lvalue that designates an object, or
  a prvalue of pointer type such as \<^verbatim>\<open>this\<close>. A function whose result type is the
  reference \<^verbatim>\<open>opencl_type &\<close> binds that reference to the expression: to the object an
  lvalue designates; a pointer is not an object of type \<^verbatim>\<open>opencl_type\<close>, and the
  \<^verbatim>\<open>return\<close> is ill-formed.
\<close>

datatype expr = lvalue addr | prvalue_pointer addr

definition bind_reference :: "expr \<Rightarrow> error + addr" where
  "bind_reference e =
     (case e of lvalue a \<Rightarrow> Inr a
      | prvalue_pointer a \<Rightarrow> Inl (compile_error cannot_bind_reference))"

subsection \<open>\<^verbatim>\<open>AddressSpaceVariableImpl\<close> (lines 149 to 190)\<close>

text \<open>\<^verbatim>\<open>AddressSpaceVariableImpl(const T & v) : variable(v) { }\<close>\<close>

definition AddressSpaceVariableImpl_from_T :: "addr \<Rightarrow> 'v \<Rightarrow> 'v store \<Rightarrow> 'v store" where
  "AddressSpaceVariableImpl_from_T this v s = s(this := Val v)"

text \<open>\<^verbatim>\<open>AddressSpaceVariableImpl() = default;\<close> default-initialises the member
  \<^verbatim>\<open>variable\<close>.\<close>

definition AddressSpaceVariableImpl_default :: "'v cell \<Rightarrow> addr \<Rightarrow> 'v store \<Rightarrow> 'v store" where
  "AddressSpaceVariableImpl_default dflt this s = default_initialize dflt this 1 s"

text \<open>\<^verbatim>\<open>operator opencl_type & () { return variable; }\<close>\<close>

definition AddressSpaceVariableImpl_operator :: "addr \<Rightarrow> error + addr" where
  "AddressSpaceVariableImpl_operator this = bind_reference (lvalue this)"

subsection \<open>\<^verbatim>\<open>AddressSpaceFundamentalImpl\<close> (lines 201 to 247)\<close>

text \<open>\<^verbatim>\<open>using super::AddressSpaceVariableImpl;\<close> inherits the constructor from a
  \<^verbatim>\<open>T\<close>; the conversion operator is inherited as a member.\<close>

definition AddressSpaceFundamentalImpl_from_T :: "addr \<Rightarrow> 'v \<Rightarrow> 'v store \<Rightarrow> 'v store" where
  "AddressSpaceFundamentalImpl_from_T this v s = AddressSpaceVariableImpl_from_T this v s"

definition AddressSpaceFundamentalImpl_operator :: "addr \<Rightarrow> error + addr" where
  "AddressSpaceFundamentalImpl_operator this = AddressSpaceVariableImpl_operator this"

text \<open>\<^verbatim>\<open>AddressSpaceFundamentalImpl() = default;\<close> default-constructs the base
  class.\<close>

definition AddressSpaceFundamentalImpl_default ::
    "'v cell \<Rightarrow> addr \<Rightarrow> 'v store \<Rightarrow> 'v store" where
  "AddressSpaceFundamentalImpl_default dflt this s = AddressSpaceVariableImpl_default dflt this s"

text \<open>
  \<^verbatim>\<open>
  template <typename SomeType, cl::sycl::address_space SomeAS>
  AddressSpaceFundamentalImpl(AddressSpaceFundamentalImpl<SomeType, SomeAS>& v)
  {
    super::variable = SomeType(v);
  }
  \<close>
  No member initialiser: the base class is default-constructed first. \<^verbatim>\<open>SomeType(v)\<close>
  converts the wrapper \<open>v\<close> with its conversion operator and reads the value of the
  object the reference designates; the assignment converts that \<^verbatim>\<open>SomeType\<close> value to
  \<^verbatim>\<open>T\<close>, which is the argument \<open>conv\<close>.
\<close>

definition AddressSpaceFundamentalImpl_from_wrapper ::
    "'v cell \<Rightarrow> ('v \<Rightarrow> 'v) \<Rightarrow> addr \<Rightarrow> addr \<Rightarrow> 'v store \<Rightarrow> error + 'v store" where
  "AddressSpaceFundamentalImpl_from_wrapper dflt conv this v s =
     (let s0 = AddressSpaceVariableImpl_default dflt this s in
      and_then (AddressSpaceFundamentalImpl_operator v) (\<lambda>r.
      and_then (lvalue_to_rvalue s0 r) (\<lambda>x.
      Inr (assign this (conv x) s0))))"

subsection \<open>\<^verbatim>\<open>AddressSpacePointerImpl\<close> (lines 259 to 271)\<close>

text \<open>
  \<^verbatim>\<open>
  struct AddressSpacePointerImpl : public AddressSpaceFundamentalImpl<T, AS> {
    static_assert(std::is_pointer<T>::value, "T must be a pointer type");
    using super = AddressSpaceFundamentalImpl<T, AS>;
    using super::AddressSpaceFundamentalImpl;
  };
  \<close>
  Every use of a member instantiates the class, and with it the assertion. The
  constructors are those of the base class, the default constructor is the implicit one,
  the conversion operator is inherited.
\<close>

definition AddressSpacePointerImpl_instantiate :: "ctype \<Rightarrow> error + unit" where
  "AddressSpacePointerImpl_instantiate T =
     static_assert (is_pointer T) ''T must be a pointer type''"

definition AddressSpacePointerImpl_from_T ::
    "ctype \<Rightarrow> addr \<Rightarrow> 'v \<Rightarrow> 'v store \<Rightarrow> error + 'v store" where
  "AddressSpacePointerImpl_from_T T this v s =
     and_then (AddressSpacePointerImpl_instantiate T) (\<lambda>_.
     Inr (AddressSpaceFundamentalImpl_from_T this v s))"

definition AddressSpacePointerImpl_default ::
    "ctype \<Rightarrow> 'v cell \<Rightarrow> addr \<Rightarrow> 'v store \<Rightarrow> error + 'v store" where
  "AddressSpacePointerImpl_default T dflt this s =
     and_then (AddressSpacePointerImpl_instantiate T) (\<lambda>_.
     Inr (AddressSpaceFundamentalImpl_default dflt this s))"

definition AddressSpacePointerImpl_from_wrapper ::
    "ctype \<Rightarrow> 'v cell \<Rightarrow> ('v \<Rightarrow> 'v) \<Rightarrow> addr \<Rightarrow> addr \<Rightarrow> 'v store \<Rightarrow> error + 'v store" where
  "AddressSpacePointerImpl_from_wrapper T dflt conv this v s =
     and_then (AddressSpacePointerImpl_instantiate T) (\<lambda>_.
     AddressSpaceFundamentalImpl_from_wrapper dflt conv this v s)"

definition AddressSpacePointerImpl_operator :: "ctype \<Rightarrow> addr \<Rightarrow> error + addr" where
  "AddressSpacePointerImpl_operator T this =
     and_then (AddressSpacePointerImpl_instantiate T) (\<lambda>_.
     AddressSpaceFundamentalImpl_operator this)"

subsection \<open>\<^verbatim>\<open>AddressSpaceArrayImpl\<close> (lines 280 to 360)\<close>

text \<open>
  \<^verbatim>\<open>std::copy(first, last, result)\<close> assigns the elements of the source range, in
  order, to the objects from \<open>result\<close> on, and advances both. The source is the list of
  the values between \<open>first\<close> and \<open>last\<close>. The destination is an array that ends at
  \<open>limit\<close>: \<^verbatim>\<open>std::copy\<close> does not know where it ends and tests nothing, and an
  assignment through an iterator that has reached the end of the array is undefined
  behaviour, which the run of the program gives as its result.
\<close>

fun std_copy :: "'v list \<Rightarrow> addr \<Rightarrow> addr \<Rightarrow> 'v store \<Rightarrow> error + 'v store" where
  "std_copy [] result limit s = Inr s"
| "std_copy (x # first) result limit s =
     (if result < limit then std_copy first (Suc result) limit (assign result x s)
      else Inl undefined_behavior)"

text \<open>
  In the class for \<^verbatim>\<open>T = U[N]\<close> the argument \<open>N\<close> is the extent of \<^verbatim>\<open>T\<close>. The
  member \<^verbatim>\<open>opencl_type variable;\<close> has no initialiser in the two constructors that
  copy, so it is default-initialised before their body runs.

  \<^verbatim>\<open>
  AddressSpaceArrayImpl(const T &array) {
    std::copy(std::begin(array), std::end(array), std::begin(variable));
  };
  \<close>
  The parameter is a reference to \<^verbatim>\<open>U[N]\<close>: an array of another extent is an object
  of another type, to which the reference does not bind. The argument is modelled by the
  list of its elements, whose length is the extent of its type.
\<close>

definition AddressSpaceArrayImpl_from_array ::
    "'v cell \<Rightarrow> nat \<Rightarrow> addr \<Rightarrow> 'v list \<Rightarrow> 'v store \<Rightarrow> error + 'v store" where
  "AddressSpaceArrayImpl_from_array dflt N this array s =
     (if length array = N
      then std_copy array this (this + N) (default_initialize dflt this N s)
      else Inl (compile_error no_matching_constructor))"

text \<open>
  \<^verbatim>\<open>
  AddressSpaceArrayImpl(std::initializer_list<std::remove_extent_t<T>> list) {
    std::copy(std::begin(list), std::end(list), std::begin(variable));
  };
  \<close>
  The number of elements of a \<^verbatim>\<open>std::initializer_list\<close> is not part of its type, and
  the body does not look at it: the compiler accepts a list of any length. The member
  \<^verbatim>\<open>variable\<close> ends at \<open>this + N\<close>; for a list of more than \<open>N\<close> elements the copy
  runs past that end.
\<close>

definition AddressSpaceArrayImpl_from_list ::
    "'v cell \<Rightarrow> nat \<Rightarrow> addr \<Rightarrow> 'v list \<Rightarrow> 'v store \<Rightarrow> error + 'v store" where
  "AddressSpaceArrayImpl_from_list dflt N this list s =
     std_copy list this (this + N) (default_initialize dflt this N s)"

text \<open>\<^verbatim>\<open>AddressSpaceArrayImpl() = default;\<close>\<close>

definition AddressSpaceArrayImpl_default ::
    "'v cell \<Rightarrow> nat \<Rightarrow> addr \<Rightarrow> 'v store \<Rightarrow> 'v store" where
  "AddressSpaceArrayImpl_default dflt N this s = default_initialize dflt this N s"

text \<open>\<^verbatim>\<open>operator opencl_type & () { return variable; }\<close>\<close>

definition AddressSpaceArrayImpl_operator :: "addr \<Rightarrow> error + addr" where
  "AddressSpaceArrayImpl_operator this = bind_reference (lvalue this)"

text \<open>An array object built at \<open>a\<close> with the elements \<open>xs\<close>.\<close>

definition construct_array :: "addr \<Rightarrow> 'v list \<Rightarrow> 'v store \<Rightarrow> 'v store" where
  "construct_array a xs s =
     (\<lambda>b. if a \<le> b \<and> b < a + length xs then Val (xs ! (b - a)) else s b)"

text \<open>
  Initialisation of an array of \<open>n\<close> elements from a braced list of initialiser clauses
  (aggregate initialisation): the clause \<open>i\<close> copy-initialises the element \<open>i\<close>, with
  the implicit conversion \<open>copy_initialize\<close> from the clause to the element type, which
  may not exist; the elements that have no clause are value-initialised, \<open>zero\<close> for an
  arithmetic or pointer type; more clauses than elements are refused.
\<close>

fun initialize_elements :: "('c \<Rightarrow> error + 'v) \<Rightarrow> 'c list \<Rightarrow> error + 'v list" where
  "initialize_elements copy_initialize [] = Inr []"
| "initialize_elements copy_initialize (c # cs) =
     and_then (copy_initialize c) (\<lambda>x.
     and_then (initialize_elements copy_initialize cs) (\<lambda>xs.
     Inr (x # xs)))"

definition aggregate_initialize ::
    "nat \<Rightarrow> ('c \<Rightarrow> error + 'v) \<Rightarrow> 'v \<Rightarrow> 'c list \<Rightarrow> error + 'v list" where
  "aggregate_initialize n copy_initialize zero clauses =
     (if n < length clauses then Inl (compile_error excess_initializers)
      else and_then (initialize_elements copy_initialize clauses) (\<lambda>xs.
           Inr (xs @ replicate (n - length xs) zero)))"

text \<open>
  \<^verbatim>\<open>
  template <typename SomeType, cl::sycl::address_space SomeAS>
  AddressSpaceArrayImpl(AddressSpaceArrayImpl<SomeType, SomeAS>& v)
    : variable { SomeType { v } } { }
  \<close>
  \<^verbatim>\<open>SomeType\<close> is the array type \<^verbatim>\<open>U'[M]\<close> of the source wrapper.
  \<^verbatim>\<open>SomeType { v }\<close> is a temporary array of \<open>M\<close> elements initialised from the braced
  list whose one clause is the wrapper \<open>v\<close>, and \<^verbatim>\<open>variable { ... }\<close> initialises the
  \<open>N\<close> elements of the member from the braced list whose one clause is that temporary:
  neither goes through the conversion operator of \<open>v\<close> to an array, and neither copies
  element by element. What C++ allows as the copy-initialisation of one element from a
  wrapper (\<open>from_wrapper\<close>, in the store at the call) and from an array (\<open>from_array\<close>)
  is left open: both are arguments.
\<close>

definition AddressSpaceArrayImpl_from_wrapper ::
    "nat \<Rightarrow> nat \<Rightarrow> ('v store \<Rightarrow> addr \<Rightarrow> error + 'v) \<Rightarrow> ('v list \<Rightarrow> error + 'v) \<Rightarrow> 'v \<Rightarrow>
     addr \<Rightarrow> addr \<Rightarrow> 'v store \<Rightarrow> error + 'v store" where
  "AddressSpaceArrayImpl_from_wrapper N M from_wrapper from_array zero this v s =
     and_then (aggregate_initialize M (from_wrapper s) zero [v]) (\<lambda>temporary.
     and_then (aggregate_initialize N from_array zero [temporary]) (\<lambda>elements.
     Inr (construct_array this elements s)))"

subsection \<open>\<^verbatim>\<open>AddressSpaceObjectImpl\<close> (lines 376 to 404)\<close>

text \<open>
  The class derives from \<^verbatim>\<open>OpenCLType<T, AS>::type\<close>: the wrapper at \<open>this\<close> has
  its base class object, the \<^verbatim>\<open>T\<close> it stands for, in the cell \<open>this\<close>.
\<close>






text \<open>\<^verbatim>\<open>operator opencl_type & () { return this; }\<close> returns the pointer
  \<^verbatim>\<open>this\<close>, not the object \<^verbatim>\<open>*this\<close>.\<close>

definition AddressSpaceObjectImpl_operator :: "addr \<Rightarrow> error + addr" where
  "AddressSpaceObjectImpl_operator this = bind_reference (prvalue_pointer this)"

subsection \<open>Values of two fundamental types\<close>

text \<open>
  For the example of a \<^verbatim>\<open>double\<close> wrapper built from an \<^verbatim>\<open>int\<close> wrapper: the
  values of the two types, and the conversion of C++ from \<^verbatim>\<open>int\<close> to \<^verbatim>\<open>double\<close>,
  which is exact.
\<close>

datatype number = IntV int | DoubleV real

fun int_to_double :: "number \<Rightarrow> number" where
  "int_to_double (IntV i) = DoubleV (of_int i)"
| "int_to_double (DoubleV d) = DoubleV d"

subsection \<open>Looking at the result of a construction\<close>

text \<open>The cell \<open>a\<close> after a construction, when the construction is accepted.\<close>

definition cell_after :: "error + 'v store \<Rightarrow> addr \<Rightarrow> error + 'v cell" where
  "cell_after r a = and_then r (\<lambda>s. Inr (s a))"

section \<open>Theorems about the types\<close>

lemma OpenCLType_device:
  "OpenCLType True T AS =
     Qualified (case AS of constant_address_space \<Rightarrow> constant_qualifier
                | generic_address_space \<Rightarrow> generic_qualifier
                | global_address_space \<Rightarrow> global_qualifier
                | local_address_space \<Rightarrow> local_qualifier
                | private_address_space \<Rightarrow> private_qualifier) T"
  by (cases AS) simp_all

text \<open>
  C6. When \<^verbatim>\<open>__SYCL_DEVICE_ONLY__\<close> is not defined, \<^verbatim>\<open>OpenCLType<T, AS>::type\<close> is
  \<^verbatim>\<open>T\<close> for every address space, so the member \<^verbatim>\<open>opencl_type\<close> of every wrapper
  equals its member \<^verbatim>\<open>type\<close>, and in each of the four classes the type of what is
  stored and the type the conversion operator refers to are the plain \<^verbatim>\<open>T\<close>.
\<close>

theorem OpenCLType_host_is_T:
  assumes "\<not> SYCL_DEVICE_ONLY"
  shows "OpenCLType SYCL_DEVICE_ONLY T AS = T \<and>
         opencl_type (AddressSpaceBaseImpl SYCL_DEVICE_ONLY T AS) =
           type (AddressSpaceBaseImpl SYCL_DEVICE_ONLY T AS) \<and>
         storage_type SYCL_DEVICE_ONLY (AddressSpaceImpl T AS) = T \<and>
         conversion_type SYCL_DEVICE_ONLY (AddressSpaceImpl T AS) = T"
proof -
  have host: "OpenCLType SYCL_DEVICE_ONLY T AS = T"
    using assms by (cases AS) simp_all
  then have "storage_type SYCL_DEVICE_ONLY (AddressSpaceImpl T AS) = T"
    by (simp add: AddressSpaceImpl_def conditional_def)
  with host show ?thesis
    by (simp add: AddressSpaceBaseImpl_def conversion_type_def)
qed

theorem OpenCLType_host_is_T_witness:
  "\<not> False \<and>
   OpenCLType False (Fundamental ''int'') global_address_space = Fundamental ''int'' \<and>
   opencl_type (AddressSpaceBaseImpl False (Fundamental ''int'') global_address_space) =
     type (AddressSpaceBaseImpl False (Fundamental ''int'') global_address_space) \<and>
   storage_type False (AddressSpaceImpl (Fundamental ''int'') global_address_space) =
     Fundamental ''int'' \<and>
   conversion_type False (AddressSpaceImpl (Fundamental ''int'') global_address_space) =
     Fundamental ''int''"
  using OpenCLType_host_is_T [of False "Fundamental ''int''" global_address_space] by simp

text \<open>
  C7. The class is chosen from \<^verbatim>\<open>T\<close> alone, by the first of the three tests that
  holds, in the order pointer, class, array, and the class for fundamental types when none
  holds; its category is the same whatever the address space. A pointer type, a pointer
  to an array and a pointer to a class among them, gets the pointer class, never the
  array class or the object class.
\<close>

theorem AddressSpaceImpl_first_match:
  "AddressSpaceImpl T AS =
     (if is_pointer T then AddressSpacePointerImpl T AS
      else if is_class T then AddressSpaceObjectImpl T AS
      else if is_array T then AddressSpaceArrayImpl T AS
      else AddressSpaceFundamentalImpl T AS) \<and>
   category_of (AddressSpaceImpl T AS) = category_of (AddressSpaceImpl T AS') \<and>
   AddressSpaceImpl (Pointer U) AS = AddressSpacePointerImpl (Pointer U) AS \<and>
   AddressSpaceImpl (Pointer (Array U n)) AS = AddressSpacePointerImpl (Pointer (Array U n)) AS \<and>
   AddressSpaceImpl (Pointer (Class c)) AS = AddressSpacePointerImpl (Pointer (Class c)) AS \<and>
   (is_pointer T \<longrightarrow>
      category_of (AddressSpaceImpl T AS) = pointer_category \<and>
      category_of (AddressSpaceImpl T AS) \<noteq> array_category \<and>
      category_of (AddressSpaceImpl T AS) \<noteq> object_category)"
  by (simp add: AddressSpaceImpl_def conditional_def)

theorem AddressSpaceImpl_first_match_witness:
  "is_pointer (Pointer (Array (Fundamental ''float'') 4)) \<and>
   AddressSpaceImpl (Pointer (Array (Fundamental ''float'') 4)) local_address_space =
     AddressSpacePointerImpl (Pointer (Array (Fundamental ''float'') 4)) local_address_space \<and>
   category_of (AddressSpaceImpl (Pointer (Array (Fundamental ''float'') 4)) local_address_space) =
     pointer_category \<and>
   category_of (AddressSpaceImpl (Pointer (Array (Fundamental ''float'') 4)) local_address_space) \<noteq>
     array_category \<and>
   category_of (AddressSpaceImpl (Pointer (Array (Fundamental ''float'') 4)) local_address_space) \<noteq>
     object_category"
  using AddressSpaceImpl_first_match
    [of "Pointer (Array (Fundamental ''float'') 4)" local_address_space global_address_space
        "Array (Fundamental ''float'') 4" 0 "''c''"]
  by simp

section \<open>Facts about the store\<close>

lemma and_then_Inr [simp]: "and_then (Inr x) f = f x"
  by (simp add: and_then_def)

lemma and_then_Inl [simp]: "and_then (Inl e) f = Inl e"
  by (simp add: and_then_def)

lemma bind_reference_lvalue [simp]: "bind_reference (lvalue a) = Inr a"
  by (simp add: bind_reference_def)

lemma construct_array_Cons:
  "construct_array (Suc d) xs (assign d x s) = construct_array d (x # xs) s"
proof
  fix a
  show "construct_array (Suc d) xs (assign d x s) a = construct_array d (x # xs) s a"
    by (cases "a = d") (auto simp: construct_array_def assign_def nth_Cons' Suc_diff_Suc)
qed

lemma std_copy_inside:
  "d + length xs \<le> l \<Longrightarrow> std_copy xs d l s = Inr (construct_array d xs s)"
proof (induction xs arbitrary: d s)
  case Nil
  have "construct_array d [] s = s"
    by (rule ext) (auto simp: construct_array_def)
  then show ?case by simp
next
  case (Cons x xs)
  from Cons.prems have "d < l" and "Suc d + length xs \<le> l" by simp_all
  then show ?case
    by (simp add: Cons.IH construct_array_Cons)
qed

lemma std_copy_past_the_end:
  "d \<le> l \<Longrightarrow> l < d + length xs \<Longrightarrow> std_copy xs d l s = Inl undefined_behavior"
proof (induction xs arbitrary: d s)
  case Nil
  then show ?case by simp
next
  case (Cons x xs)
  show ?case
  proof (cases "d < l")
    case True
    with Cons.prems have "Suc d \<le> l" and "l < Suc d + length xs" by simp_all
    with True show ?thesis by (simp add: Cons.IH)
  next
    case False
    then show ?thesis by simp
  qed
qed

lemma read_array_length [simp]: "length (read_array s a n) = n"
  by (simp add: read_array_def)

lemma read_array_nth [simp]: "i < n \<Longrightarrow> read_array s a n ! i = s (a + i)"
  by (simp add: read_array_def)

lemma default_cells:
  "read_array (default_initialize dflt this N s) this N = replicate N dflt"
  by (rule nth_equalityI) (simp_all add: default_initialize_def)

lemma from_list_cells:
  assumes "length list \<le> N"
  shows "read_array (construct_array this list (default_initialize dflt this N s)) this N =
         map Val list @ replicate (N - length list) dflt"
proof (rule nth_equalityI)
  show "length (read_array (construct_array this list (default_initialize dflt this N s)) this N) =
        length (map Val list @ replicate (N - length list) dflt)"
    using assms by simp
next
  fix i
  assume "i < length (read_array (construct_array this list (default_initialize dflt this N s))
      this N)"
  then have i: "i < N" by simp
  show "read_array (construct_array this list (default_initialize dflt this N s)) this N ! i =
        (map Val list @ replicate (N - length list) dflt) ! i"
    using i assms by (simp add: construct_array_def default_initialize_def nth_append)
qed

section \<open>Theorems about the pointer class\<close>

text \<open>
  C8. For a type \<^verbatim>\<open>T\<close> that is not a pointer, instantiating
  \<^verbatim>\<open>AddressSpacePointerImpl<T, AS>\<close> fails on the static assertion, with its message:
  every member is refused by the compiler, and nothing is left to fail when the program
  runs. For a pointer type the assertion passes, the stored type is the one of
  \<^verbatim>\<open>AddressSpaceFundamentalImpl<T, AS>\<close>, and the constructors (from a \<^verbatim>\<open>T\<close>, by
  default, from a wrapper of another type or address space) and the conversion operator
  are those of \<^verbatim>\<open>AddressSpaceFundamentalImpl<T, AS>\<close>.
\<close>

theorem AddressSpacePointerImpl_static_check:
  "(\<not> is_pointer T \<longrightarrow>
      AddressSpacePointerImpl_instantiate T =
        Inl (compile_error (static_assert_failed ''T must be a pointer type'')) \<and>
      AddressSpacePointerImpl_from_T T this v s =
        Inl (compile_error (static_assert_failed ''T must be a pointer type'')) \<and>
      AddressSpacePointerImpl_default T dflt this s =
        Inl (compile_error (static_assert_failed ''T must be a pointer type'')) \<and>
      AddressSpacePointerImpl_from_wrapper T dflt conv this w s =
        Inl (compile_error (static_assert_failed ''T must be a pointer type'')) \<and>
      AddressSpacePointerImpl_operator T this =
        Inl (compile_error (static_assert_failed ''T must be a pointer type''))) \<and>
   (is_pointer T \<longrightarrow>
      AddressSpacePointerImpl_instantiate T = Inr () \<and>
      storage_type dev (AddressSpacePointerImpl T AS) =
        storage_type dev (AddressSpaceFundamentalImpl T AS) \<and>
      AddressSpacePointerImpl_from_T T this v s =
        Inr (AddressSpaceFundamentalImpl_from_T this v s) \<and>
      AddressSpacePointerImpl_default T dflt this s =
        Inr (AddressSpaceFundamentalImpl_default dflt this s) \<and>
      AddressSpacePointerImpl_from_wrapper T dflt conv this w s =
        AddressSpaceFundamentalImpl_from_wrapper dflt conv this w s \<and>
      AddressSpacePointerImpl_operator T this = AddressSpaceFundamentalImpl_operator this)"
  by (simp add: AddressSpacePointerImpl_instantiate_def static_assert_def
      AddressSpacePointerImpl_from_T_def AddressSpacePointerImpl_default_def
      AddressSpacePointerImpl_from_wrapper_def AddressSpacePointerImpl_operator_def)

theorem AddressSpacePointerImpl_static_check_witness:
  "\<not> is_pointer (Fundamental ''float'') \<and>
   AddressSpacePointerImpl_instantiate (Fundamental ''float'') =
     Inl (compile_error (static_assert_failed ''T must be a pointer type'')) \<and>
   AddressSpacePointerImpl_from_T (Fundamental ''float'') 0 (1::int) (\<lambda>_. Indeterminate) =
     Inl (compile_error (static_assert_failed ''T must be a pointer type'')) \<and>
   is_pointer (Pointer (Fundamental ''float'')) \<and>
   AddressSpacePointerImpl_from_T (Pointer (Fundamental ''float'')) 0 (1::int) (\<lambda>_. Indeterminate) =
     Inr (AddressSpaceFundamentalImpl_from_T 0 1 (\<lambda>_. Indeterminate)) \<and>
   AddressSpacePointerImpl_operator (Pointer (Fundamental ''float'')) 0 = Inr 0"
  using AddressSpacePointerImpl_static_check
      [of "Fundamental ''float''" 0 "1::int" "\<lambda>_. Indeterminate"]
    AddressSpacePointerImpl_static_check
      [of "Pointer (Fundamental ''float'')" 0 "1::int" "\<lambda>_. Indeterminate"]
  by (simp add: AddressSpaceFundamentalImpl_operator_def AddressSpaceVariableImpl_operator_def)

section \<open>Theorems about the array class\<close>

text \<open>
  C9. An initialiser list of \<open>k \<le> N\<close> elements is accepted by the constructor of the
  wrapper of \<^verbatim>\<open>U[N]\<close>, which checks no length. Afterwards the first \<open>k\<close> elements of
  the array are the elements of the list, in the order of the list, and the other
  \<open>N - k\<close> elements are what the default constructor leaves there.
\<close>

theorem AddressSpaceArrayImpl_from_list_short:
  assumes "length list \<le> N"
  shows "\<exists>s'. AddressSpaceArrayImpl_from_list dflt N this list s = Inr s' \<and>
           take (length list) (read_array s' this N) = map Val list \<and>
           drop (length list) (read_array s' this N) =
             drop (length list) (read_array (AddressSpaceArrayImpl_default dflt N this s) this N)"
  using assms
  by (simp add: AddressSpaceArrayImpl_from_list_def AddressSpaceArrayImpl_default_def
      std_copy_inside from_list_cells default_cells)

theorem AddressSpaceArrayImpl_from_list_short_witness:
  "length [7, 8 :: int] \<le> 3 \<and>
   (\<exists>s'. AddressSpaceArrayImpl_from_list Indeterminate 3 0 [7, 8 :: int] (\<lambda>_. Indeterminate) =
          Inr s' \<and>
      take 2 (read_array s' 0 3) = [Val 7, Val 8] \<and>
      drop 2 (read_array s' 0 3) = [Indeterminate])"
  using AddressSpaceArrayImpl_from_list_short
      [of "[7, 8 :: int]" 3 Indeterminate 0 "\<lambda>_. Indeterminate"]
  by (simp add: AddressSpaceArrayImpl_default_def default_cells numeral_2_eq_2)

text \<open>The constructor from an array takes only an array of the extent \<open>N\<close> of the
  wrapper, and then writes the \<open>N\<close> cells of the wrapper and no other.\<close>

lemma AddressSpaceArrayImpl_from_array_checked:
  "AddressSpaceArrayImpl_from_array dflt N this array s =
     (if length array = N
      then Inr (construct_array this array (default_initialize dflt this N s))
      else Inl (compile_error no_matching_constructor))"
  by (simp add: AddressSpaceArrayImpl_from_array_def std_copy_inside)

lemma AddressSpaceArrayImpl_from_array_frame:
  assumes "AddressSpaceArrayImpl_from_array dflt N this array s = Inr s'"
    and "a < this \<or> this + N \<le> a"
  shows "s' a = s a"
  using assms
  by (auto simp: AddressSpaceArrayImpl_from_array_checked construct_array_def
      default_initialize_def split: if_splits)

text \<open>The constructor from an initialiser list of more than \<open>N\<close> elements is not
  refused by the compiler: it runs, and its run is undefined.\<close>

lemma AddressSpaceArrayImpl_from_list_long:
  "N < length list \<Longrightarrow>
   AddressSpaceArrayImpl_from_list dflt N this list s = Inl undefined_behavior"
  by (simp add: AddressSpaceArrayImpl_from_list_def std_copy_past_the_end)

text \<open>
  C5, the initialiser list. A list of four elements given to the wrapper of
  \<^verbatim>\<open>int[3]\<close> at address 0 gets no diagnostic of the compiler; the copy of its fourth
  element is an assignment past the end of the array, and the construction is undefined
  behaviour at run time.
\<close>

theorem AddressSpaceArrayImpl_from_list_overrun:
  "AddressSpaceArrayImpl_from_list Indeterminate 3 0 [1, 2, 3, 4 :: int] (\<lambda>_. Indeterminate) =
     Inl undefined_behavior \<and>
   AddressSpaceArrayImpl_from_list Indeterminate 3 0 [1, 2, 3, 4 :: int] (\<lambda>_. Indeterminate) \<noteq>
     Inl (compile_error no_matching_constructor)"
  by (simp add: AddressSpaceArrayImpl_from_list_long)

section \<open>Theorems about the conversion operators\<close>

text \<open>
  C10. The conversion operator of the classes for fundamental types, for pointer types
  and for arrays returns a reference to the member \<^verbatim>\<open>variable\<close> of the wrapper
  itself. A value assigned through that reference is the value read through the reference
  that a later conversion of the same wrapper returns, for an array at the index that was
  assigned and with the other elements as they were; and the assignment changes no cell
  but the one assigned.
\<close>

theorem conversion_operator_aliases_variable:
  "(\<exists>r. AddressSpaceVariableImpl_operator this = Inr r \<and>
      and_then (AddressSpaceVariableImpl_operator this) (lvalue_to_rvalue (assign r x s)) = Inr x \<and>
      (\<forall>a. a \<noteq> this \<longrightarrow> assign r x s a = s a)) \<and>
   (\<exists>r. AddressSpaceFundamentalImpl_operator this = Inr r \<and>
      and_then (AddressSpaceFundamentalImpl_operator this) (lvalue_to_rvalue (assign r x s)) = Inr x \<and>
      (\<forall>a. a \<noteq> this \<longrightarrow> assign r x s a = s a)) \<and>
   (is_pointer T \<longrightarrow>
     (\<exists>r. AddressSpacePointerImpl_operator T this = Inr r \<and>
        and_then (AddressSpacePointerImpl_operator T this) (lvalue_to_rvalue (assign r x s)) = Inr x \<and>
        (\<forall>a. a \<noteq> this \<longrightarrow> assign r x s a = s a))) \<and>
   (i < N \<longrightarrow>
     (\<exists>r. AddressSpaceArrayImpl_operator this = Inr r \<and>
        and_then (AddressSpaceArrayImpl_operator this)
          (\<lambda>r'. Inr (read_array (assign (subscript r i) x s) r' N)) =
          Inr ((read_array s this N)[i := Val x]) \<and>
        (\<forall>a. a \<noteq> this + i \<longrightarrow> assign (subscript r i) x s a = s a)))"
proof -
  have scalar: "lvalue_to_rvalue (assign this x s) this = Inr x"
    by (simp add: lvalue_to_rvalue_def assign_def)
  have frame: "\<forall>a. a \<noteq> this \<longrightarrow> assign this x s a = s a"
    by (simp add: assign_def)
  have array: "read_array (assign (subscript this i) x s) this N = (read_array s this N)[i := Val x]"
    if "i < N"
    by (rule nth_equalityI) (auto simp: assign_def subscript_def nth_list_update)
  have array_frame: "\<forall>a. a \<noteq> this + i \<longrightarrow> assign (subscript this i) x s a = s a"
    by (simp add: assign_def subscript_def)
  show ?thesis
    using scalar frame array array_frame
    by (simp add: AddressSpaceVariableImpl_operator_def AddressSpaceFundamentalImpl_operator_def
        AddressSpacePointerImpl_operator_def AddressSpacePointerImpl_instantiate_def
        static_assert_def AddressSpaceArrayImpl_operator_def)
qed

theorem conversion_operator_aliases_variable_witness:
  "is_pointer (Pointer (Fundamental ''int'')) \<and> (1::nat) < 3 \<and>
   (\<exists>r. AddressSpacePointerImpl_operator (Pointer (Fundamental ''int'')) 5 = Inr r \<and>
      and_then (AddressSpacePointerImpl_operator (Pointer (Fundamental ''int'')) 5)
        (lvalue_to_rvalue (assign r (9::int) (\<lambda>_. Val 0))) = Inr 9 \<and>
      assign r (9::int) (\<lambda>_. Val 0) 6 = Val 0) \<and>
   (\<exists>r. AddressSpaceArrayImpl_operator 5 = Inr r \<and>
      and_then (AddressSpaceArrayImpl_operator 5)
        (\<lambda>r'. Inr (read_array (assign (subscript r 1) (9::int) (\<lambda>_. Val 0)) r' 3)) =
        Inr [Val 0, Val 9, Val 0] \<and>
      assign (subscript r 1) (9::int) (\<lambda>_. Val 0) 5 = Val 0)"
  using conversion_operator_aliases_variable
      [of 5 "9::int" "\<lambda>_. Val 0" "Pointer (Fundamental ''int'')" 1 3]
  by (simp add: read_array_def upt_rec AddressSpacePointerImpl_operator_def
      AddressSpacePointerImpl_instantiate_def static_assert_def
      AddressSpaceFundamentalImpl_operator_def AddressSpaceVariableImpl_operator_def
      AddressSpaceArrayImpl_operator_def)

section \<open>The round trip, class by class\<close>









text \<open>
  C2. The conversion operator of \<^verbatim>\<open>AddressSpaceObjectImpl\<close> does not return a
  reference to the object held at \<open>this\<close>: the result of the function is a reference,
  the expression of its \<^verbatim>\<open>return this;\<close> is a pointer, and the compiler refuses it.
\<close>

theorem AddressSpaceObjectImpl_operator_returns_pointer:
  "AddressSpaceObjectImpl_operator this = Inl (compile_error cannot_bind_reference) \<and>
   AddressSpaceObjectImpl_operator this \<noteq> Inr this"
  by (simp add: AddressSpaceObjectImpl_operator_def bind_reference_def)

section \<open>Default construction\<close>



section \<open>Construction from another wrapper\<close>

text \<open>The constructor of \<^verbatim>\<open>AddressSpaceFundamentalImpl\<close> from a wrapper of another
  type or address space stores the value of that wrapper, read through its conversion
  operator and converted to \<^verbatim>\<open>T\<close>.\<close>

lemma AddressSpaceFundamentalImpl_from_wrapper_converts:
  assumes "s v = Val x" and "v \<noteq> this"
  shows "cell_after (AddressSpaceFundamentalImpl_from_wrapper dflt conv this v s) this =
         and_then (and_then (AddressSpaceFundamentalImpl_operator v) (lvalue_to_rvalue s))
           (\<lambda>y. Inr (Val (conv y)))"
  using assms
  by (auto simp: AddressSpaceFundamentalImpl_from_wrapper_def AddressSpaceFundamentalImpl_operator_def
      AddressSpaceVariableImpl_operator_def AddressSpaceVariableImpl_default_def
      lvalue_to_rvalue_def default_initialize_def assign_def cell_after_def)

text \<open>A \<^verbatim>\<open>double\<close> wrapper at address 1 built from the \<^verbatim>\<open>int\<close> wrapper at address 0
  that holds 7 holds 7.0.\<close>

lemma AddressSpaceFundamentalImpl_from_wrapper_example:
  "cell_after
     (AddressSpaceFundamentalImpl_from_wrapper Indeterminate int_to_double 1 0
        (AddressSpaceFundamentalImpl_from_T 0 (IntV 7) (\<lambda>_. Indeterminate)))
     1 = Inr (Val (DoubleV 7))"
  by (simp add: AddressSpaceFundamentalImpl_from_wrapper_def AddressSpaceFundamentalImpl_operator_def
      AddressSpaceVariableImpl_operator_def AddressSpaceVariableImpl_default_def
      AddressSpaceFundamentalImpl_from_T_def AddressSpaceVariableImpl_from_T_def
      lvalue_to_rvalue_def default_initialize_def assign_def cell_after_def)

lemma aggregate_initialize_one:
  "aggregate_initialize (Suc n) f zero [c] =
     and_then (f c) (\<lambda>x. Inr (x # replicate n zero))"
  by (cases "f c") (simp_all add: aggregate_initialize_def)

lemma AddressSpaceArrayImpl_from_wrapper_rest_zero:
  assumes "AddressSpaceArrayImpl_from_wrapper N M from_wrapper from_array zero this v s = Inr s'"
    and "0 < i" and "i < N"
  shows "s' (this + i) = Val zero"
proof -
  from assms(2,3) obtain n where N: "N = Suc n" by (cases N) auto
  show ?thesis
  proof (cases M)
    case 0
    with assms(1) show ?thesis
      by (simp add: AddressSpaceArrayImpl_from_wrapper_def aggregate_initialize_def)
  next
    case (Suc m)
    with assms N show ?thesis
      by (auto simp: AddressSpaceArrayImpl_from_wrapper_def aggregate_initialize_one
          construct_array_def and_then_def nth_Cons' split: sum.splits)
  qed
qed

text \<open>
  C4, the array class. A wrapper of \<^verbatim>\<open>int[2]\<close> at address 10 built from the wrapper
  of \<^verbatim>\<open>int[2]\<close> at address 0 that holds 1 and 2 never holds 2 as its second element,
  whatever conversions to an element C++ finds: either the construction is refused, or
  the second element is value-initialised.
\<close>

theorem AddressSpaceArrayImpl_from_wrapper_not_elementwise:
  "cell_after
     (AddressSpaceArrayImpl_from_wrapper 2 2 from_wrapper from_array 0 10 0
        (construct_array 0 [1, 2 :: int] (\<lambda>_. Indeterminate)))
     11 \<noteq> Inr (Val 2)"
proof (cases "AddressSpaceArrayImpl_from_wrapper 2 2 from_wrapper from_array 0 10 0
        (construct_array 0 [1, 2 :: int] (\<lambda>_. Indeterminate))")
  case (Inl e)
  then show ?thesis by (simp add: cell_after_def)
next
  case (Inr s')
  from AddressSpaceArrayImpl_from_wrapper_rest_zero [OF Inr, of 1]
  have "s' 11 = Val 0" by simp
  with Inr show ?thesis by (simp add: cell_after_def)
qed

end
